theory Spec2Isabelle
  imports Complex_Main "HOL-Library.Sublist" "HOL-Library.AList"
begin

section \<open>Python string operations used by run_capsule.py\<close>

text \<open>
  Strings are \<open>char list\<close>. Each function below is the Python operation of the same
  name, on the inputs the script gives it.
\<close>

text \<open>\<^verbatim>\<open>sub in s\<close>: \<open>sub\<close> occurs in \<open>s\<close> as a contiguous substring.\<close>

fun str_in :: "string \<Rightarrow> string \<Rightarrow> bool" where
  "str_in sub [] = (sub = [])"
| "str_in sub (c # cs) = (prefix sub (c # cs) \<or> str_in sub cs)"

definition startswith :: "string \<Rightarrow> string \<Rightarrow> bool" where
  "startswith s pre = prefix pre s"

definition endswith :: "string \<Rightarrow> string \<Rightarrow> bool" where
  "endswith s suf = prefix (rev suf) (rev s)"

text \<open>\<^verbatim>\<open>s.find(sub)\<close>: the index of the first occurrence, or -1.\<close>

fun find_first :: "string \<Rightarrow> string \<Rightarrow> nat option" where
  "find_first sub [] = (if sub = [] then Some 0 else None)"
| "find_first sub (c # cs) =
     (if prefix sub (c # cs) then Some 0 else map_option Suc (find_first sub cs))"

definition str_find :: "string \<Rightarrow> string \<Rightarrow> int" where
  "str_find s sub = (case find_first sub s of None \<Rightarrow> - 1 | Some i \<Rightarrow> int i)"

text \<open>\<^verbatim>\<open>s[:k]\<close>: a negative \<open>k\<close> counts from the end.\<close>

definition slice_to :: "string \<Rightarrow> int \<Rightarrow> string" where
  "slice_to s k = (if 0 \<le> k then take (nat k) s else take (length s - nat (- k)) s)"

text \<open>\<^verbatim>\<open>s.split(sep)\<close> for a one-character separator: never the empty list.\<close>

fun split_on :: "char \<Rightarrow> string \<Rightarrow> string list" where
  "split_on sep [] = [[]]"
| "split_on sep (c # cs) =
     (if c = sep then [] # split_on sep cs
      else (case split_on sep cs of w # ws \<Rightarrow> (c # w) # ws | [] \<Rightarrow> [[c]]))"

text \<open>\<^verbatim>\<open>sep.join(ws)\<close>.\<close>

fun join :: "string \<Rightarrow> string list \<Rightarrow> string" where
  "join sep [] = []"
| "join sep [w] = w"
| "join sep (w # v # ws) = w @ sep @ join sep (v # ws)"

text \<open>Python's \<^verbatim>\<open>a or b\<close> on strings: the empty string is falsy.\<close>

definition str_or :: "string \<Rightarrow> string \<Rightarrow> string" where
  "str_or a b = (if a \<noteq> [] then a else b)"

text \<open>The same on values that may be \<^verbatim>\<open>None\<close>: \<^verbatim>\<open>None\<close> and the empty string are falsy.\<close>

definition opt_or :: "string option \<Rightarrow> string option \<Rightarrow> string option" where
  "opt_or a b = (case a of None \<Rightarrow> b | Some s \<Rightarrow> if s \<noteq> [] then Some s else b)"

section \<open>Recording names (lines 158-163)\<close>

text \<open>
  \<^verbatim>\<open>
  if pipeline_mode:
      recording_name = ("_").join(postprocessed_folder.name.split("_")[1:])
  else:
      recording_name = postprocessed_folder.name
  if recording_name.endswith(".zarr"):
      recording_name = recording_name[:recording_name.find(".zarr")]
  \<close>
\<close>

definition strip_zarr :: "string \<Rightarrow> string" where
  "strip_zarr recording_name =
     (if endswith recording_name ''.zarr''
      then slice_to recording_name (str_find recording_name ''.zarr'')
      else recording_name)"

definition recording_name_of :: "bool \<Rightarrow> string \<Rightarrow> string" where
  "recording_name_of pipeline_mode folder_name =
     strip_zarr (if pipeline_mode then join ''_'' (tl (split_on CHR ''_'' folder_name))
                 else folder_name)"

section \<open>Python's \<^verbatim>\<open>int\<close> and \<^verbatim>\<open>float\<close> on strings\<close>

text \<open>
  Both builtins strip surrounding whitespace, accept a sign and allow single underscores
  between digits; anything else raises ValueError, which is \<open>None\<close> here. Only ASCII
  input is modelled, on which the whitespace stripped is tab, line feed, vertical tab, form
  feed, carriage return and space (codes 9 to 13 and 32), and nothing else.
\<close>

definition is_space :: "char \<Rightarrow> bool" where
  "is_space c = (let n = (of_char c :: nat) in (9 \<le> n \<and> n \<le> 13) \<or> n = 32)"

definition is_digit :: "char \<Rightarrow> bool" where
  "is_digit c = (let n = (of_char c :: nat) in 48 \<le> n \<and> n \<le> 57)"

definition digit_val :: "char \<Rightarrow> nat" where
  "digit_val c = of_char c - 48"

definition to_lower :: "char \<Rightarrow> char" where
  "to_lower c = (let n = (of_char c :: nat) in if 65 \<le> n \<and> n \<le> 90 then char_of (n + 32) else c)"

definition strip :: "string \<Rightarrow> string" where
  "strip s = rev (dropWhile is_space (rev (dropWhile is_space s)))"

text \<open>
  The value of a run of digits; \<open>prev\<close> says that the character before was a digit, so
  that an underscore may follow and the literal may end.
\<close>

fun digits_value :: "bool \<Rightarrow> nat \<Rightarrow> string \<Rightarrow> nat option" where
  "digits_value prev acc [] = (if prev then Some acc else None)"
| "digits_value prev acc (c # cs) =
     (if is_digit c then digits_value True (10 * acc + digit_val c) cs
      else if c = CHR ''_'' \<and> prev then digits_value False acc cs
      else None)"

text \<open>
  \<^verbatim>\<open>int(s)\<close> in base 10. CPython (3.11, default \<^verbatim>\<open>sys.int_max_str_digits\<close>) also raises
  ValueError when the literal has more than 4300 digits, leading zeros counted and
  underscores not.
\<close>

definition int_max_str_digits :: nat where
  "int_max_str_digits = 4300"

definition py_int :: "string \<Rightarrow> int option" where
  "py_int s =
     (case strip s of
        [] \<Rightarrow> None
      | c # cs \<Rightarrow>
          (let body = (if c = CHR ''-'' \<or> c = CHR ''+'' then cs else c # cs) in
           if int_max_str_digits < length (filter is_digit body) then None
           else map_option (\<lambda>n. if c = CHR ''-'' then - int n else int n)
                  (digits_value False 0 body)))"

text \<open>What is left after the digits (and underscores between digits) that follow a digit.\<close>

fun skip_digits :: "string \<Rightarrow> string" where
  "skip_digits [] = []"
| "skip_digits [c] = (if is_digit c then [] else [c])"
| "skip_digits (c # d # cs) =
     (if is_digit c then skip_digits (d # cs)
      else if c = CHR ''_'' \<and> is_digit d then skip_digits (d # cs)
      else c # d # cs)"

definition digitpart :: "string \<Rightarrow> string option" where
  "digitpart s = (case s of [] \<Rightarrow> None | c # cs \<Rightarrow> if is_digit c then Some (skip_digits cs) else None)"

definition exponent_ok :: "string \<Rightarrow> bool" where
  "exponent_ok s =
     (case s of
        [] \<Rightarrow> True
      | c # cs \<Rightarrow>
          (c = CHR ''e'' \<or> c = CHR ''E'') \<and>
          (case cs of
             [] \<Rightarrow> False
           | d # ds \<Rightarrow> digitpart (if d = CHR ''+'' \<or> d = CHR ''-'' then ds else d # ds) = Some []))"

definition fraction_ok :: "bool \<Rightarrow> string \<Rightarrow> bool" where
  "fraction_ok had_int s =
     (case s of
        [] \<Rightarrow> had_int
      | c # f \<Rightarrow>
          if c = CHR ''.'' then
            (case digitpart f of Some r \<Rightarrow> exponent_ok r | None \<Rightarrow> had_int \<and> exponent_ok f)
          else had_int \<and> exponent_ok s)"

definition decimal_ok :: "string \<Rightarrow> bool" where
  "decimal_ok s = (case digitpart s of Some r \<Rightarrow> fraction_ok True r | None \<Rightarrow> fraction_ok False s)"

text \<open>
  \<^verbatim>\<open>float(s)\<close>: the result is kept as the stripped literal, standing for the double
  nearest to it; no claim depends on its numeric value.
\<close>

definition py_float :: "string \<Rightarrow> string option" where
  "py_float s =
     (let t = strip s;
          body = (case t of [] \<Rightarrow> [] | c # cs \<Rightarrow> if c = CHR ''+'' \<or> c = CHR ''-'' then cs else t)
      in if decimal_ok body \<or> map to_lower body \<in> {''inf'', ''infinity'', ''nan''}
         then Some t else None)"

section \<open>Command line (lines 36-51, 59)\<close>

datatype error =
    ArgparseError       \<comment> \<open>\<^verbatim>\<open>parser.parse_args()\<close> exits with a usage error\<close>
  | ValueError          \<comment> \<open>\<^verbatim>\<open>int(...)\<close> or \<^verbatim>\<open>float(...)\<close> on a malformed string\<close>
  | ParamsLoadError     \<comment> \<open>the parameters file cannot be opened, or the JSON is malformed\<close>
  | KeyError            \<comment> \<open>a key is missing in the parameters document\<close>
  | AssertionError      \<comment> \<open>"Attach one sorted asset at a time"\<close>
  | IterdirError        \<comment> \<open>\<^verbatim>\<open>iterdir()\<close> on something that is not a directory\<close>
  | JobKwargsError      \<comment> \<open>\<^verbatim>\<open>si.set_global_job_kwargs\<close> refuses the keyword arguments\<close>
  | MetadataLoadError   \<comment> \<open>a subject or data-description file cannot be opened or parsed\<close>

text \<open>
  What the user typed: the positional arguments in order, and the value of each named
  option that was given.
\<close>

record cmdline =
  positionals :: "string list"
  opt_n_jobs :: "string option"
  opt_params_file :: "string option"
  opt_params_str :: "string option"

text \<open>The namespace \<^verbatim>\<open>args\<close>.\<close>

record args =
  static_n_jobs :: string
  n_jobs :: string
  static_params_file :: "string option"
  params_file :: "string option"
  params_str :: "string option"

text \<open>
  The parser of lines 36-51: two optional positionals (\<^verbatim>\<open>static_n_jobs\<close> with default
  "-1", then \<^verbatim>\<open>static_params_file\<close> with default None), \<^verbatim>\<open>--n-jobs\<close> with default "-1",
  \<^verbatim>\<open>--params-file\<close> and \<^verbatim>\<open>--params-str\<close> with default None. The job-count pair is one
  mutually exclusive group and the three parameter sources are another: argparse exits
  when two members of a group are given.
\<close>

definition parse_args :: "cmdline \<Rightarrow> error + args" where
  "parse_args c =
     (let pos = positionals c in
      if 2 < length pos then Inl ArgparseError
      else if pos \<noteq> [] \<and> opt_n_jobs c \<noteq> None then Inl ArgparseError
      else if 1 < length (filter id [1 < length pos, opt_params_file c \<noteq> None,
                                     opt_params_str c \<noteq> None])
           then Inl ArgparseError
      else Inr \<lparr>static_n_jobs = (case pos of [] \<Rightarrow> ''-1'' | p # _ \<Rightarrow> p),
                n_jobs = (case opt_n_jobs c of None \<Rightarrow> ''-1'' | Some v \<Rightarrow> v),
                static_params_file = (case pos of _ # q # _ \<Rightarrow> Some q | _ \<Rightarrow> None),
                params_file = opt_params_file c,
                params_str = opt_params_str c\<rparr>)"

section \<open>Job count (lines 61-62, 66-68)\<close>

text \<open>
  \<^verbatim>\<open>
  N_JOBS = args.static_n_jobs or args.n_jobs
  N_JOBS = int(N_JOBS) if not N_JOBS.startswith("0.") else float(N_JOBS)
  N_JOBS_CO = os.getenv("CO_CPUS")
  N_JOBS = int(N_JOBS_CO) if N_JOBS_CO is not None else N_JOBS
  \<close>
\<close>

datatype n_jobs_value = JobsInt int | JobsFloat string

definition N_JOBS_of_args :: "args \<Rightarrow> error + n_jobs_value" where
  "N_JOBS_of_args a =
     (let N_JOBS = str_or (static_n_jobs a) (n_jobs a) in
      if \<not> startswith N_JOBS ''0.''
      then (case py_int N_JOBS of None \<Rightarrow> Inl ValueError | Some i \<Rightarrow> Inr (JobsInt i))
      else (case py_float N_JOBS of None \<Rightarrow> Inl ValueError | Some f \<Rightarrow> Inr (JobsFloat f)))"

definition resolve_N_JOBS :: "string option \<Rightarrow> args \<Rightarrow> error + n_jobs_value" where
  "resolve_N_JOBS N_JOBS_CO a =
     (case N_JOBS_of_args a of
        Inl e \<Rightarrow> Inl e
      | Inr N_JOBS \<Rightarrow>
          (case N_JOBS_CO of
             None \<Rightarrow> Inr N_JOBS
           | Some s \<Rightarrow> (case py_int s of None \<Rightarrow> Inl ValueError | Some i \<Rightarrow> Inr (JobsInt i))))"

section \<open>Parameters source (lines 63-64, 70-78)\<close>

text \<open>
  \<^verbatim>\<open>
  PARAMS_FILE = args.static_params_file or args.params_file
  PARAMS_STR = args.params_str
  if PARAMS_FILE is not None: ... json.load(open(PARAMS_FILE))
  elif PARAMS_STR is not None: ... json.loads(PARAMS_STR)
  else: ... json.load(open("params.json"))
  \<close>
\<close>

datatype params_source = FromFile string | FromString string

definition params_source_of :: "args \<Rightarrow> params_source" where
  "params_source_of a =
     (let PARAMS_FILE = opt_or (static_params_file a) (params_file a);
          PARAMS_STR = params_str a
      in case PARAMS_FILE of
           Some f \<Rightarrow> FromFile f
         | None \<Rightarrow> (case PARAMS_STR of Some s \<Rightarrow> FromString s | None \<Rightarrow> FromFile ''params.json''))"

section \<open>Parameters document and environment\<close>

text \<open>
  The parameters document has a \<^verbatim>\<open>job_kwargs\<close> object and a \<^verbatim>\<open>curation\<close> object; a key
  that is absent is \<open>None\<close>. Python dictionaries keep insertion order, so they are
  association lists. The thresholds are JSON numbers: finite doubles, read as the
  rationals they denote.
\<close>

datatype kwarg = NJobs n_jobs_value | Other string

record processing_params =
  job_kwargs :: "(string \<times> kwarg) list option"
  curation :: "(string \<times> rat) list option"

text \<open>
  A directory tree: \<^verbatim>\<open>p.name\<close> is the first component of an entry, \<^verbatim>\<open>p.is_dir()\<close> and
  \<^verbatim>\<open>p.iterdir()\<close> read the second. The entries of a directory are in the order in which
  \<^verbatim>\<open>iterdir\<close> yields them.
\<close>

datatype node = File | Dir "(string \<times> node) list"

type_synonym entry = "string \<times> node"

fun is_dir :: "node \<Rightarrow> bool" where
  "is_dir File = False"
| "is_dir (Dir es) = True"

text \<open>\<^verbatim>\<open>folder / name\<close>, when it exists.\<close>

fun child :: "node \<Rightarrow> string \<Rightarrow> node option" where
  "child File n = None"
| "child (Dir es) n = map_of es n"

fun lookup_path :: "node \<Rightarrow> string list \<Rightarrow> node option" where
  "lookup_path d [] = Some d"
| "lookup_path d (n # ns) = (case child d n of None \<Rightarrow> None | Some d' \<Rightarrow> lookup_path d' ns)"

text \<open>\<^verbatim>\<open>iterdir()\<close> raises on a path that is missing or is not a directory.\<close>

fun iterdir :: "node option \<Rightarrow> error + entry list" where
  "iterdir (Some (Dir es)) = Inr es"
| "iterdir (Some File) = Inl IterdirError"
| "iterdir None = Inl IterdirError"

section \<open>Analyzer and quality metrics\<close>

text \<open>
  A metric value is a double: NaN, an infinity or a finite value. Comparing NaN with
  anything is false, as in pandas.
\<close>

datatype metric = NaN | NegInf | Fin rat | PosInf

fun metric_lt :: "metric \<Rightarrow> rat \<Rightarrow> bool" where
  "metric_lt NaN t = False"
| "metric_lt NegInf t = True"
| "metric_lt (Fin x) t = (x < t)"
| "metric_lt PosInf t = False"

fun metric_gt :: "metric \<Rightarrow> rat \<Rightarrow> bool" where
  "metric_gt NaN t = False"
| "metric_gt NegInf t = False"
| "metric_gt (Fin x) t = (x > t)"
| "metric_gt PosInf t = True"

record qm_row =
  isi_violations_ratio :: metric
  presence_ratio :: metric
  amplitude_cutoff :: metric

type_synonym unit_id = int

text \<open>
  What the script reads of a loaded analyzer: \<^verbatim>\<open>analyzer.unit_ids\<close> (the same array as
  \<^verbatim>\<open>analyzer.sorting.unit_ids\<close>) and the data frame of the quality_metrics extension,
  as its rows in order, each with its index value. A loaded analyzer is taken to have
  that extension, with the three columns that the query names.
\<close>

record analyzer =
  unit_ids :: "unit_id list"
  quality_metrics :: "(unit_id \<times> qm_row) list"

record environment =
  CO_CPUS :: "string option"                      \<comment> \<open>\<^verbatim>\<open>os.getenv("CO_CPUS")\<close>\<close>
  open_json :: "string \<Rightarrow> processing_params option"    \<comment> \<open>\<^verbatim>\<open>json.load(open(path))\<close>\<close>
  json_loads :: "string \<Rightarrow> processing_params option"   \<comment> \<open>\<^verbatim>\<open>json.loads(text)\<close>\<close>
  data_folder :: node                                   \<comment> \<open>\<^verbatim>\<open>../data/\<close>\<close>
  load_sorting_analyzer_or_waveforms :: "string list \<Rightarrow> analyzer option"
    \<comment> \<open>by path below the data folder; \<open>None\<close> when the call raises\<close>
  set_global_job_kwargs :: "(string \<times> kwarg) list \<Rightarrow> bool"
    \<comment> \<open>whether \<^verbatim>\<open>si.set_global_job_kwargs(**job_kwargs)\<close> returns; it raises otherwise\<close>
  open_metadata :: "string \<Rightarrow> (string \<times> string) list option"
    \<comment> \<open>\<^verbatim>\<open>json.load(open(f))\<close> on a file of the data folder, by name\<close>

definition load_params :: "environment \<Rightarrow> params_source \<Rightarrow> error + processing_params" where
  "load_params env src =
     (case (case src of FromFile f \<Rightarrow> open_json env f | FromString s \<Rightarrow> json_loads env s) of
        None \<Rightarrow> Inl ParamsLoadError
      | Some processing_params \<Rightarrow> Inr processing_params)"

section \<open>Curation query (lines 118-145)\<close>

text \<open>
  The query string is a conjunction of comparisons of a column with a number; it is kept
  as the list of its clauses, and \<open>df_query\<close> is \<^verbatim>\<open>DataFrame.query\<close> on such a string.
\<close>

datatype column = IsiViolationsRatio | PresenceRatio | AmplitudeCutoff

datatype clause = Less column rat | Greater column rat

type_synonym query = "clause list"

fun column_value :: "qm_row \<Rightarrow> column \<Rightarrow> metric" where
  "column_value row IsiViolationsRatio = isi_violations_ratio row"
| "column_value row PresenceRatio = presence_ratio row"
| "column_value row AmplitudeCutoff = amplitude_cutoff row"

fun eval_clause :: "qm_row \<Rightarrow> clause \<Rightarrow> bool" where
  "eval_clause row (Less c t) = metric_lt (column_value row c) t"
| "eval_clause row (Greater c t) = metric_gt (column_value row c) t"

definition eval_query :: "query \<Rightarrow> qm_row \<Rightarrow> bool" where
  "eval_query q row = list_all (eval_clause row) q"

definition df_query :: "query \<Rightarrow> (unit_id \<times> qm_row) list \<Rightarrow> (unit_id \<times> qm_row) list" where
  "df_query q qm = filter (\<lambda>r. eval_query q (snd r)) qm"

definition full_query :: "rat \<Rightarrow> rat \<Rightarrow> rat \<Rightarrow> query" where
  "full_query isi_violations_ratio_thr presence_ratio_thr amplitude_cutoff_thr =
     [Less IsiViolationsRatio isi_violations_ratio_thr,
      Greater PresenceRatio presence_ratio_thr,
      Less AmplitudeCutoff amplitude_cutoff_thr]"

definition test_query :: "rat \<Rightarrow> rat \<Rightarrow> query" where
  "test_query isi_violations_ratio_thr amplitude_cutoff_thr =
     [Less IsiViolationsRatio isi_violations_ratio_thr,
      Less AmplitudeCutoff amplitude_cutoff_thr]"

section \<open>Attached sorted assets and mode (lines 88-92, 125-142)\<close>

text \<open>
  \<^verbatim>\<open>
  if p.is_dir() and "ecephys" in p.name or "behavior" in p.name and "sorted" in p.name
  \<close>
  Python's \<^verbatim>\<open>and\<close> binds tighter than \<^verbatim>\<open>or\<close>.
\<close>

definition is_sorted_asset :: "entry \<Rightarrow> bool" where
  "is_sorted_asset p =
     ((is_dir (snd p) \<and> str_in ''ecephys'' (fst p)) \<or>
      (str_in ''behavior'' (fst p) \<and> str_in ''sorted'' (fst p)))"

definition ecephys_sorted_folders :: "entry list \<Rightarrow> entry list" where
  "ecephys_sorted_folders ps = filter is_sorted_asset ps"

text \<open>
  The branch taken at lines 126-142. The source names the first one "capsule mode" and
  the second "TEST MODE"; \<open>mode\<close> records which one ran, \<open>pipeline_mode\<close> is the
  source's flag.
\<close>

datatype mode = CapsuleMode | TestMode | PipelineMode

record resolved =
  mode :: mode
  pipeline_mode :: bool
  postprocessed_base_folder :: "string list"   \<comment> \<open>path below the data folder\<close>
  curation_query :: query
  threshold_params :: "(string \<times> rat) list"   \<comment> \<open>\<^verbatim>\<open>curation_params\<close> after the branch\<close>

definition resolve_mode :: "node \<Rightarrow> entry list \<Rightarrow> (string \<times> rat) list \<Rightarrow> error + resolved" where
  "resolve_mode data sorted_folders curation_params =
     (case map_of curation_params ''isi_violations_ratio_threshold'' of
        None \<Rightarrow> Inl KeyError
      | Some isi_violations_ratio_thr \<Rightarrow>
     (case map_of curation_params ''presence_ratio_threshold'' of
        None \<Rightarrow> Inl KeyError
      | Some presence_ratio_thr \<Rightarrow>
     (case map_of curation_params ''amplitude_cutoff_threshold'' of
        None \<Rightarrow> Inl KeyError
      | Some amplitude_cutoff_thr \<Rightarrow>
          if 0 < length sorted_folders then
            (if length sorted_folders \<noteq> 1 then Inl AssertionError
             else Inr \<lparr>mode = CapsuleMode, pipeline_mode = False,
                       postprocessed_base_folder = [fst (sorted_folders ! 0), ''postprocessed''],
                       curation_query =
                         full_query isi_violations_ratio_thr presence_ratio_thr amplitude_cutoff_thr,
                       threshold_params = curation_params\<rparr>)
          else if (case child data ''postprocessing_pipeline_output_test'' of
                     None \<Rightarrow> False | Some d \<Rightarrow> is_dir d) then
            Inr \<lparr>mode = TestMode, pipeline_mode = True,
                 postprocessed_base_folder = [''postprocessing_pipeline_output_test''],
                 curation_query = test_query isi_violations_ratio_thr amplitude_cutoff_thr,
                 threshold_params = AList.delete ''presence_ratio_threshold'' curation_params\<rparr>
          else
            Inr \<lparr>mode = PipelineMode, pipeline_mode = True,
                 postprocessed_base_folder = [],
                 curation_query =
                   full_query isi_violations_ratio_thr presence_ratio_thr amplitude_cutoff_thr,
                 threshold_params = curation_params\<rparr>)))"

text \<open>
  \<^verbatim>\<open>
  if pipeline_mode:
      [p for p in postprocessed_base_folder.iterdir() if "postprocessed_" in p.name]
  else:
      [p for p in ... if "postprocessed-sorting" not in p.name and p.is_dir()]
  \<close>
\<close>

definition postprocessed_folders :: "bool \<Rightarrow> entry list \<Rightarrow> entry list" where
  "postprocessed_folders pipeline ps =
     (if pipeline then filter (\<lambda>p. str_in ''postprocessed_'' (fst p)) ps
      else filter (\<lambda>p. \<not> str_in ''postprocessed-sorting'' (fst p) \<and> is_dir (snd p)) ps)"

section \<open>Per-recording curation (lines 155-210)\<close>

text \<open>
  \<^verbatim>\<open>curation_notes\<close> and the log are kept as the list of their lines, each line as the
  values formatted into it. The log is the list of the \<^verbatim>\<open>logging.info\<close> calls made, in
  order; which of them the configured handlers print is not modelled.
\<close>

datatype notes_line = QueryNote query | PassingNote int int

datatype log_line =
    LogUsingParams string
  | LogCuration
  | LogTestMode
  | LogQuery query
  | LogCurating string
  | LogSkipping string
  | LogPassing int int
  | LogTime

record curation_outputs =
  total_units :: int
  passing_qc :: int
  failing_qc :: int

text \<open>
  The dictionary \<^verbatim>\<open>curation_params\<close>: its threshold entries, and the entry
  \<^verbatim>\<open>recording_name\<close> that line 193 adds.
\<close>

record params_dict =
  thresholds :: "(string \<times> rat) list"
  recording_name :: "string option"

text \<open>The DataProcess document, without its two wall-clock timestamps.\<close>

record data_process =
  process_name :: string
  software_version :: string
  input_location :: string
  output_location :: string
  code_url :: string
  parameters :: params_dict
  outputs :: curation_outputs
  process_notes :: "notes_line list"

datatype file_content = Npy "bool list" | DataProcessJson data_process

text \<open>
  The state that the loop changes: the notes, the parameters dictionary, the files written
  to the results folder (every write in order; a later write to the same name replaces
  the file) and the log.
\<close>

record state =
  curation_notes :: "notes_line list"
  curation_params :: params_dict
  results :: "(string \<times> file_content) list"
  logged :: "log_line list"

definition qc_file :: "string \<Rightarrow> string" where
  "qc_file rec_name = ''qc_'' @ rec_name @ ''.npy''"

definition process_json_file :: "string \<Rightarrow> string" where
  "process_json_file rec_name = ''data_process_curation'' @ ''_'' @ rec_name @ ''.json''"

text \<open>
  \<^verbatim>\<open>
  qm_curated = qm.query(curation_query)
  curated_unit_ids = qm_curated.index.values
  default_qc = np.array([True if unit in curated_unit_ids else False
                         for unit in analyzer.sorting.unit_ids])
  \<close>
\<close>

definition default_qc :: "query \<Rightarrow> analyzer \<Rightarrow> bool list" where
  "default_qc q an =
     (let qm_curated = df_query q (quality_metrics an);
          curated_unit_ids = map fst qm_curated
      in map (\<lambda>unit. unit \<in> set curated_unit_ids) (unit_ids an))"

definition outputs_of :: "int \<Rightarrow> int \<Rightarrow> curation_outputs" where
  "outputs_of n_units n_passing =
     \<lparr>total_units = n_units, passing_qc = n_passing, failing_qc = n_units - n_passing\<rparr>"

definition curation_process :: "state \<Rightarrow> curation_outputs \<Rightarrow> data_process" where
  "curation_process st outs =
     \<lparr>process_name = ''Ephys curation'',
      software_version = ''1.0'',
      input_location = ''../data'',
      output_location = ''../results'',
      code_url = ''https://github.com/AllenNeuralDynamics/aind-ephys-curation'',
      parameters = curation_params st,
      outputs = outs,
      process_notes = curation_notes st\<rparr>"

text \<open>One iteration of the loop over \<^verbatim>\<open>postprocessed_folders\<close>.\<close>

definition process_folder :: "environment \<Rightarrow> resolved \<Rightarrow> state \<Rightarrow> entry \<Rightarrow> state" where
  "process_folder env su st postprocessed_folder =
     (let rec_name = recording_name_of (pipeline_mode su) (fst postprocessed_folder) in
      case load_sorting_analyzer_or_waveforms env
             (postprocessed_base_folder su @ [fst postprocessed_folder]) of
        None \<Rightarrow>
          st\<lparr>logged := logged st @ [LogSkipping rec_name],
             results := results st @ [(qc_file rec_name, Npy [])]\<rparr>
      | Some an \<Rightarrow>
          (let mask = default_qc (curation_query su) an;
               n_passing = int (length (filter id mask));
               n_units = int (length (unit_ids an));
               st1 = st\<lparr>logged := logged st @ [LogCurating rec_name, LogPassing n_passing n_units],
                        curation_notes := curation_notes st @ [PassingNote n_passing n_units],
                        results := results st @ [(qc_file rec_name, Npy mask)],
                        curation_params := (curation_params st)\<lparr>recording_name := Some rec_name\<rparr>\<rparr>
           in if pipeline_mode su
              then st1\<lparr>results := results st1 @
                         [(process_json_file rec_name,
                           DataProcessJson (curation_process st1 (outputs_of n_units n_passing)))]\<rparr>
              else st1))"

fun curate_all :: "environment \<Rightarrow> resolved \<Rightarrow> state \<Rightarrow> entry list \<Rightarrow> state" where
  "curate_all env su st [] = st"
| "curate_all env su st (p # ps) = curate_all env su (process_folder env su st p) ps"

text \<open>The state when the loop starts (lines 56, 71, 116, 133, 144-145).\<close>

definition initial_state :: "params_source \<Rightarrow> args \<Rightarrow> resolved \<Rightarrow> state" where
  "initial_state src a su =
     \<lparr>curation_notes = [QueryNote (curation_query su)],
      curation_params = \<lparr>thresholds = threshold_params su, recording_name = None\<rparr>,
      results = [],
      logged = (case opt_or (static_params_file a) (params_file a) of
               None \<Rightarrow> [] | Some f \<Rightarrow> [LogUsingParams f]) @
            [LogCuration] @
            (if mode su = TestMode then [LogTestMode] else []) @
            [LogQuery (curation_query su)]\<rparr>"

section \<open>The whole run (lines 54-214)\<close>

definition and_then :: "error + 'a \<Rightarrow> ('a \<Rightarrow> error + 'b) \<Rightarrow> error + 'b" where
  "and_then r f = (case r of Inl e \<Rightarrow> Inl e | Inr x \<Rightarrow> f x)"

definition lookup_key :: "'a option \<Rightarrow> error + 'a" where
  "lookup_key v = (case v of None \<Rightarrow> Inl KeyError | Some x \<Rightarrow> Inr x)"

text \<open>
  The scan for the subject and data-description files (lines 94-105):
  \<^verbatim>\<open>
  subject_id = "undefined"; session_name = "undefined"
  for f in data_folder.iterdir():
      if "subject.json" in f.name:
          with open(f, "r") as file: subject_id = json.load(file)["subject_id"]
      if "data_description.json" in f.name:
          with open(f, "r") as file: session_name = json.load(file)["name"]
  \<close>
  Opening a directory, a file that cannot be read or parsed, and a missing key all raise.
\<close>

definition read_field :: "environment \<Rightarrow> entry \<Rightarrow> string \<Rightarrow> error + string" where
  "read_field env f key =
     (if is_dir (snd f) then Inl MetadataLoadError
      else (case open_metadata env (fst f) of
              None \<Rightarrow> Inl MetadataLoadError
            | Some d \<Rightarrow> lookup_key (map_of d key)))"

fun scan_metadata :: "environment \<Rightarrow> string \<times> string \<Rightarrow> entry list \<Rightarrow> error + (string \<times> string)" where
  "scan_metadata env ids [] = Inr ids"
| "scan_metadata env ids (f # fs) =
     (case (if str_in ''subject.json'' (fst f) then read_field env f ''subject_id''
            else Inr (fst ids)) of
        Inl e \<Rightarrow> Inl e
      | Inr subject_id \<Rightarrow>
          (case (if str_in ''data_description.json'' (fst f) then read_field env f ''name''
                 else Inr (snd ids)) of
             Inl e \<Rightarrow> Inl e
           | Inr session_name \<Rightarrow> scan_metadata env (subject_id, session_name) fs))"

text \<open>
  Every error before the loop ends the run. The subject and session names that the scan
  finds only go to the logging setup (lines 107-114), so the run keeps nothing of them.
  The result is the final state together with the job keyword arguments handed to
  \<^verbatim>\<open>si.set_global_job_kwargs\<close>.
\<close>

definition main :: "environment \<Rightarrow> cmdline \<Rightarrow> error + (state \<times> (string \<times> kwarg) list)" where
  "main env c =
     and_then (parse_args c) (\<lambda>a.
     and_then (resolve_N_JOBS (CO_CPUS env) a) (\<lambda>N_JOBS.
     and_then (load_params env (params_source_of a)) (\<lambda>processing_params.
     and_then (lookup_key (job_kwargs processing_params)) (\<lambda>kw.
     and_then (if set_global_job_kwargs env (AList.update ''n_jobs'' (NJobs N_JOBS) kw)
               then Inr (AList.update ''n_jobs'' (NJobs N_JOBS) kw)
               else Inl JobKwargsError) (\<lambda>job_kwargs_set.
     and_then (lookup_key (curation processing_params)) (\<lambda>cp.
     and_then (iterdir (Some (data_folder env))) (\<lambda>ps.
     and_then (scan_metadata env (''undefined'', ''undefined'') ps) (\<lambda>ids.
     and_then (resolve_mode (data_folder env) (ecephys_sorted_folders ps) cp) (\<lambda>su.
     and_then (iterdir (lookup_path (data_folder env) (postprocessed_base_folder su)))
       (\<lambda>base_entries.
          let st = curate_all env su (initial_state (params_source_of a) a su)
                     (postprocessed_folders (pipeline_mode su) base_entries)
          in Inr (st\<lparr>logged := logged st @ [LogTime]\<rparr>, job_kwargs_set)))))))))))"

section \<open>Auxiliary definitions for the statements\<close>

text \<open>The provenance documents among the files written, by name, in the order written.\<close>

definition is_provenance :: "file_content \<Rightarrow> bool" where
  "is_provenance c = (case c of Npy m \<Rightarrow> False | DataProcessJson d \<Rightarrow> True)"

definition provenance_files :: "state \<Rightarrow> string list" where
  "provenance_files st = map fst (filter (\<lambda>w. is_provenance (snd w)) (results st))"

text \<open>The value given for the positional parameters file, if any: the second positional.\<close>

definition positional_params_file :: "cmdline \<Rightarrow> string option" where
  "positional_params_file c = (case positionals c of _ # q # _ \<Rightarrow> Some q | _ \<Rightarrow> None)"

text \<open>
  The specification's rule for an attached sorted asset, in its own words: a
  subdirectory whose name contains "ecephys", or contains both "behavior" and "sorted".
  It is compared with \<open>is_sorted_asset\<close>, which is the source's condition.
\<close>

definition spec_sorted_asset :: "entry \<Rightarrow> bool" where
  "spec_sorted_asset p =
     (is_dir (snd p) \<and>
      (str_in ''ecephys'' (fst p) \<or> (str_in ''behavior'' (fst p) \<and> str_in ''sorted'' (fst p))))"

section \<open>Example inputs\<close>

text \<open>
  The thresholds and the two units of the specification's example: isi < 0.5,
  presence > 0.9, cutoff < 0.1; unit 0 has (0.2, 0.95, 0.05), unit 1 has (0.6, 0.95, 0.05).
\<close>

definition example_thresholds :: "(string \<times> rat) list" where
  "example_thresholds =
     [(''isi_violations_ratio_threshold'', 1 / 2),
      (''presence_ratio_threshold'', 9 / 10),
      (''amplitude_cutoff_threshold'', 1 / 10)]"

definition example_params :: processing_params where
  "example_params =
     \<lparr>job_kwargs = Some [(''chunk_duration'', Other ''1s''), (''progress_bar'', Other ''False'')],
      curation = Some example_thresholds\<rparr>"

definition example_analyzer :: analyzer where
  "example_analyzer =
     \<lparr>unit_ids = [0, 1],
      quality_metrics =
        [(0, \<lparr>isi_violations_ratio = Fin (2 / 10), presence_ratio = Fin (95 / 100),
               amplitude_cutoff = Fin (5 / 100)\<rparr>),
         (1, \<lparr>isi_violations_ratio = Fin (6 / 10), presence_ratio = Fin (95 / 100),
               amplitude_cutoff = Fin (5 / 100)\<rparr>)]\<rparr>"

definition no_arguments :: cmdline where
  "no_arguments =
     \<lparr>positionals = [], opt_n_jobs = None, opt_params_file = None, opt_params_str = None\<rparr>"

text \<open>
  A pipeline-mode data folder with two recordings; the analyzer of the first loads, the
  second fails to load.
\<close>

definition pipeline_data :: node where
  "pipeline_data = Dir [(''postprocessed_rec1'', Dir []), (''postprocessed_rec2.zarr'', Dir [])]"

definition pipeline_env :: environment where
  "pipeline_env =
     \<lparr>CO_CPUS = None,
      open_json = (\<lambda>f. if f = ''params.json'' then Some example_params else None),
      json_loads = (\<lambda>s. None),
      data_folder = pipeline_data,
      load_sorting_analyzer_or_waveforms =
        (\<lambda>p. if p = [''postprocessed_rec1''] then Some example_analyzer else None),
      set_global_job_kwargs = (\<lambda>kw. True),
      open_metadata = (\<lambda>f. None)\<rparr>"

definition pipeline_resolved :: resolved where
  "pipeline_resolved =
     \<lparr>mode = PipelineMode, pipeline_mode = True, postprocessed_base_folder = [],
      curation_query = full_query (1 / 2) (9 / 10) (1 / 10),
      threshold_params = example_thresholds\<rparr>"

text \<open>A test-mode data folder with one recording, whose analyzer loads.\<close>

definition test_data :: node where
  "test_data = Dir [(''postprocessing_pipeline_output_test'', Dir [(''postprocessed_rec1'', Dir [])])]"

definition test_env :: environment where
  "test_env =
     \<lparr>CO_CPUS = None,
      open_json = (\<lambda>f. if f = ''params.json'' then Some example_params else None),
      json_loads = (\<lambda>s. None),
      data_folder = test_data,
      load_sorting_analyzer_or_waveforms =
        (\<lambda>p. if p = [''postprocessing_pipeline_output_test'', ''postprocessed_rec1'']
             then Some example_analyzer else None),
      set_global_job_kwargs = (\<lambda>kw. True),
      open_metadata = (\<lambda>f. None)\<rparr>"

text \<open>A capsule-mode data folder: one attached sorted asset with one recording.\<close>

definition capsule_data :: node where
  "capsule_data =
     Dir [(''ecephys_123_sorted'', Dir [(''postprocessed'', Dir [(''rec1.zarr'', Dir [])])])]"

definition capsule_resolved :: resolved where
  "capsule_resolved =
     \<lparr>mode = CapsuleMode, pipeline_mode = False,
      postprocessed_base_folder = [''ecephys_123_sorted'', ''postprocessed''],
      curation_query = full_query (1 / 2) (9 / 10) (1 / 10),
      threshold_params = example_thresholds\<rparr>"

definition capsule_env :: environment where
  "capsule_env =
     \<lparr>CO_CPUS = None,
      open_json = (\<lambda>f. if f = ''params.json'' then Some example_params else None),
      json_loads = (\<lambda>s. None),
      data_folder = capsule_data,
      load_sorting_analyzer_or_waveforms =
        (\<lambda>p. if p = [''ecephys_123_sorted'', ''postprocessed'', ''rec1.zarr'']
             then Some example_analyzer else None),
      set_global_job_kwargs = (\<lambda>kw. True),
      open_metadata = (\<lambda>f. None)\<rparr>"

definition start_state :: state where
  "start_state =
     \<lparr>curation_notes = [],
      curation_params = \<lparr>thresholds = example_thresholds, recording_name = None\<rparr>,
      results = [],
      logged = []\<rparr>"

section \<open>Evaluation rules and basic facts\<close>

lemmas string_defs =
  recording_name_of_def strip_zarr_def endswith_def slice_to_def str_find_def
  qc_file_def process_json_file_def

lemmas parse_defs =
  py_int_def int_max_str_digits_def py_float_def strip_def is_space_def is_digit_def digit_val_def
  decimal_ok_def digitpart_def fraction_ok_def exponent_ok_def
  parse_args_def N_JOBS_of_args_def resolve_N_JOBS_def str_or_def opt_or_def
  params_source_of_def and_then_def startswith_def Let_def

lemmas run_defs =
  main_def lookup_key_def load_params_def resolve_mode_def ecephys_sorted_folders_def
  read_field_def
  is_sorted_asset_def postprocessed_folders_def initial_state_def process_folder_def
  default_qc_def df_query_def eval_query_def full_query_def test_query_def
  curation_process_def outputs_of_def provenance_files_def is_provenance_def

lemmas example_defs =
  example_thresholds_def example_params_def example_analyzer_def no_arguments_def
  pipeline_data_def pipeline_env_def pipeline_resolved_def test_data_def test_env_def
  capsule_data_def capsule_resolved_def capsule_env_def start_state_def

lemma recording_name_rec1: "recording_name_of True ''postprocessed_rec1'' = ''rec1''"
  by (simp add: string_defs)

lemma recording_name_rec2: "recording_name_of True ''postprocessed_rec2.zarr'' = ''rec2''"
  by (simp add: string_defs)


lemma resolve_mode_flag:
  assumes "resolve_mode data sorted_folders cp = Inr su"
  shows "pipeline_mode su = (mode su \<noteq> CapsuleMode)"
  using assms by (auto simp: resolve_mode_def split: if_splits option.splits)

lemma resolve_pipeline_example:
  "resolve_mode pipeline_data [] example_thresholds = Inr pipeline_resolved"
  by (simp add: resolve_mode_def example_defs full_query_def)




lemma load_rec1_example:
  "load_sorting_analyzer_or_waveforms pipeline_env
     (postprocessed_base_folder pipeline_resolved @ [''postprocessed_rec1'']) =
   Some example_analyzer"
  by (simp add: example_defs)

lemma load_rec2_example:
  "load_sorting_analyzer_or_waveforms pipeline_env
     (postprocessed_base_folder pipeline_resolved @ [''postprocessed_rec2.zarr'']) = None"
  by (simp add: example_defs)

lemma curate_all_append:
  "curate_all env su st (ps @ qs) = curate_all env su (curate_all env su st ps) qs"
  by (induction ps arbitrary: st) simp_all

lemma process_folder_failed:
  assumes "load_sorting_analyzer_or_waveforms env (postprocessed_base_folder su @ [fst p]) = None"
  shows "process_folder env su st p =
           st\<lparr>logged := logged st @ [LogSkipping (recording_name_of (pipeline_mode su) (fst p))],
              results := results st @
                [(qc_file (recording_name_of (pipeline_mode su) (fst p)), Npy [])]\<rparr>"
  using assms by (simp add: process_folder_def Let_def)

lemma process_folder_writes_mask:
  "\<exists>mask rest. results (process_folder env su st p) =
     results st @ (qc_file (recording_name_of (pipeline_mode su) (fst p)), Npy mask) # rest"
  by (cases "load_sorting_analyzer_or_waveforms env (postprocessed_base_folder su @ [fst p])")
     (simp_all add: process_folder_def Let_def)

lemma curate_all_keeps_results:
  "\<exists>rest. results (curate_all env su st ps) = results st @ rest"
proof (induction ps arbitrary: st)
  case Nil
  then show ?case by simp
next
  case (Cons p ps)
  obtain mask r1 where
    "results (process_folder env su st p) =
       results st @ (qc_file (recording_name_of (pipeline_mode su) (fst p)), Npy mask) # r1"
    using process_folder_writes_mask by blast
  moreover obtain r2 where
    "results (curate_all env su (process_folder env su st p) ps) =
       results (process_folder env su st p) @ r2"
    using Cons.IH by blast
  ultimately show ?case by simp
qed

lemma curate_all_mask_files:
  assumes "p \<in> set ps"
  shows "qc_file (recording_name_of (pipeline_mode su) (fst p))
           \<in> fst ` set (results (curate_all env su st ps))"
  using assms
proof (induction ps arbitrary: st)
  case Nil
  then show ?case by simp
next
  case (Cons q ps)
  show ?case
  proof (cases "p = q")
    case True
    obtain mask r1 where w:
      "results (process_folder env su st q) =
         results st @ (qc_file (recording_name_of (pipeline_mode su) (fst q)), Npy mask) # r1"
      using process_folder_writes_mask by blast
    obtain r2 where
      "results (curate_all env su (process_folder env su st q) ps) =
         results (process_folder env su st q) @ r2"
      using curate_all_keeps_results by blast
    with w True show ?thesis by force
  next
    case False
    with Cons.prems have "p \<in> set ps" by simp
    then show ?thesis using Cons.IH by simp
  qed
qed

lemma provenance_files_process_folder:
  "provenance_files (process_folder env su st p) =
     provenance_files st @
     (if pipeline_mode su \<and>
         load_sorting_analyzer_or_waveforms env (postprocessed_base_folder su @ [fst p]) \<noteq> None
      then [process_json_file (recording_name_of (pipeline_mode su) (fst p))] else [])"
  by (cases "load_sorting_analyzer_or_waveforms env (postprocessed_base_folder su @ [fst p])")
     (simp_all add: process_folder_def Let_def provenance_files_def is_provenance_def)

lemma provenance_files_curate_all:
  "provenance_files (curate_all env su st ps) =
     provenance_files st @
     (if pipeline_mode su
      then map (\<lambda>p. process_json_file (recording_name_of (pipeline_mode su) (fst p)))
             (filter (\<lambda>p. load_sorting_analyzer_or_waveforms env
                              (postprocessed_base_folder su @ [fst p]) \<noteq> None) ps)
      else [])"
  by (induction ps arbitrary: st) (simp_all add: provenance_files_process_folder)

lemma pipeline_flag_example: "pipeline_mode pipeline_resolved"
  by (simp add: pipeline_resolved_def)

lemma process_rec1_example:
  "process_folder pipeline_env pipeline_resolved st (''postprocessed_rec1'', Dir []) =
      (let st1 = st\<lparr>logged := logged st @ [LogCurating ''rec1'', LogPassing 1 2],
                    curation_notes := curation_notes st @ [PassingNote 1 2],
                    results := results st @ [(''qc_rec1.npy'', Npy [True, False])],
                    curation_params := (curation_params st)\<lparr>recording_name := Some ''rec1''\<rparr>\<rparr>
       in st1\<lparr>results := results st1 @
                 [(''data_process_curation_rec1.json'',
                   DataProcessJson (curation_process st1 (outputs_of 2 1)))]\<rparr>)"
  by (simp add: process_folder_def Let_def load_rec1_example recording_name_rec1
        qc_file_def process_json_file_def pipeline_flag_example)
     (simp add: pipeline_resolved_def example_analyzer_def default_qc_def df_query_def
        eval_query_def full_query_def)

lemma strip_zero_dot:
  "strip (CHR ''0'' # CHR ''.'' # r) = CHR ''0'' # CHR ''.'' # rev (dropWhile is_space (rev r))"
proof -
  have ns: "\<not> is_space CHR ''0''" "\<not> is_space CHR ''.''"
    by (simp_all add: is_space_def)
  have "dropWhile is_space (rev r @ [CHR ''.'', CHR ''0'']) =
          dropWhile is_space (rev r) @ [CHR ''.'', CHR ''0'']"
    using ns by (simp add: dropWhile_append)
  then show ?thesis
    using ns by (simp add: strip_def)
qed

lemma py_int_zero_dot:
  assumes "startswith co ''0.''"
  shows "py_int co = None"
proof -
  obtain r where co: "co = CHR ''0'' # CHR ''.'' # r"
    using assms by (auto simp: startswith_def prefix_def)
  have "digits_value False 0 (CHR ''0'' # CHR ''.'' # t) = None" for t
    by (simp add: is_digit_def)
  then show ?thesis
    by (simp add: co py_int_def strip_zero_dot Let_def)
qed

lemma N_JOBS_of_args_error:
  assumes "N_JOBS_of_args a = Inl e"
  shows "e = ValueError"
  using assms by (auto simp: N_JOBS_of_args_def Let_def split: if_splits option.splits)

section \<open>The QC mask\<close>



text \<open>
  C2. When the analyzer of a recording loads, the mask written for it has as many entries
  as the analyzer has units (none, when it has no unit); when it fails to load, the mask
  written is the empty array.
\<close>

theorem mask_length_and_mock:
  "(load_sorting_analyzer_or_waveforms env (postprocessed_base_folder su @ [fst p]) = Some an \<longrightarrow>
      (\<exists>mask rest.
         results (process_folder env su st p) =
           results st @ (qc_file (recording_name_of (pipeline_mode su) (fst p)), Npy mask) # rest \<and>
         length mask = length (unit_ids an))) \<and>
   (load_sorting_analyzer_or_waveforms env (postprocessed_base_folder su @ [fst p]) = None \<longrightarrow>
      results (process_folder env su st p) =
        results st @ [(qc_file (recording_name_of (pipeline_mode su) (fst p)), Npy [])])"
  by (simp add: process_folder_def Let_def default_qc_def)

theorem mask_length_and_mock_witness:
  "(\<exists>mask rest.
      results (process_folder pipeline_env pipeline_resolved start_state
                 (''postprocessed_rec1'', Dir [])) =
        results start_state @ (''qc_rec1.npy'', Npy mask) # rest \<and>
      length mask = 2) \<and>
   results (process_folder pipeline_env pipeline_resolved start_state
              (''postprocessed_rec2.zarr'', Dir [])) =
     results start_state @ [(''qc_rec2.npy'', Npy [])]"
proof -
  have len: "length (unit_ids example_analyzer) = 2"
    by (simp add: example_defs)
  have pm: "pipeline_mode pipeline_resolved"
    by (simp add: example_defs)
  show ?thesis
    using mask_length_and_mock [of pipeline_env pipeline_resolved "(''postprocessed_rec1'', Dir [])"
            example_analyzer start_state]
          mask_length_and_mock [of pipeline_env pipeline_resolved
            "(''postprocessed_rec2.zarr'', Dir [])" example_analyzer start_state]
    by (simp add: load_rec1_example load_rec2_example len pm
          recording_name_rec1 recording_name_rec2 qc_file_def)
qed

section \<open>Skipping a recording that fails to load\<close>

text \<open>
  C3. When the analyzer of a recording fails to load, the loop logs the skip notice for
  it, writes the empty mask for it and goes on with the recordings after it, from a state
  that differs in nothing else; the run is not aborted, and every recording of the list
  has a mask file among the files written.
\<close>

theorem load_failure_is_skipped:
  assumes "load_sorting_analyzer_or_waveforms env (postprocessed_base_folder su @ [fst p]) = None"
  shows "curate_all env su st (before @ p # after) =
           curate_all env su
             ((curate_all env su st before)
                \<lparr>logged := logged (curate_all env su st before) @
                   [LogSkipping (recording_name_of (pipeline_mode su) (fst p))],
                 results := results (curate_all env su st before) @
                   [(qc_file (recording_name_of (pipeline_mode su) (fst p)), Npy [])]\<rparr>)
             after \<and>
         (\<forall>q \<in> set (before @ p # after).
            qc_file (recording_name_of (pipeline_mode su) (fst q))
              \<in> fst ` set (results (curate_all env su st (before @ p # after))))"
proof
  show "curate_all env su st (before @ p # after) =
           curate_all env su
             ((curate_all env su st before)
                \<lparr>logged := logged (curate_all env su st before) @
                   [LogSkipping (recording_name_of (pipeline_mode su) (fst p))],
                 results := results (curate_all env su st before) @
                   [(qc_file (recording_name_of (pipeline_mode su) (fst p)), Npy [])]\<rparr>)
             after"
    by (simp add: curate_all_append process_folder_failed [OF assms])
  show "\<forall>q \<in> set (before @ p # after).
            qc_file (recording_name_of (pipeline_mode su) (fst q))
              \<in> fst ` set (results (curate_all env su st (before @ p # after)))"
    using curate_all_mask_files by blast
qed

theorem load_failure_is_skipped_witness:
  "load_sorting_analyzer_or_waveforms pipeline_env
     (postprocessed_base_folder pipeline_resolved @ [''postprocessed_rec2.zarr'']) = None \<and>
   map fst (results (curate_all pipeline_env pipeline_resolved start_state
              [(''postprocessed_rec2.zarr'', Dir []), (''postprocessed_rec1'', Dir [])])) =
     [''qc_rec2.npy'', ''qc_rec1.npy'', ''data_process_curation_rec1.json''] \<and>
   logged (curate_all pipeline_env pipeline_resolved start_state
              [(''postprocessed_rec2.zarr'', Dir []), (''postprocessed_rec1'', Dir [])]) =
     [LogSkipping ''rec2'', LogCurating ''rec1'', LogPassing 1 2]"
proof -
  have h: "load_sorting_analyzer_or_waveforms pipeline_env
     (postprocessed_base_folder pipeline_resolved @ [fst (''postprocessed_rec2.zarr'', Dir [])]) = None"
    by (simp add: load_rec2_example)
  show ?thesis
    using load_failure_is_skipped [OF h, of start_state "[]" "[(''postprocessed_rec1'', Dir [])]"]
    by (simp add: load_rec2_example recording_name_rec2 qc_file_def process_rec1_example
          Let_def start_state_def pipeline_flag_example)
qed

section \<open>Provenance records\<close>

text \<open>
  C10. For a recording for which a provenance record is written (its analyzer loads and
  the pipeline flag is set), the record's counts are: total_units the number of units of
  the analyzer, passing_qc the number of true entries of the mask written, and
  passing_qc + failing_qc = total_units.
\<close>

theorem provenance_counts:
  assumes "load_sorting_analyzer_or_waveforms env (postprocessed_base_folder su @ [fst p]) = Some an"
    and "pipeline_mode su"
  shows "\<exists>mask d.
           results (process_folder env su st p) =
             results st @
             [(qc_file (recording_name_of (pipeline_mode su) (fst p)), Npy mask),
              (process_json_file (recording_name_of (pipeline_mode su) (fst p)), DataProcessJson d)] \<and>
           total_units (outputs d) = int (length (unit_ids an)) \<and>
           passing_qc (outputs d) = int (length (filter id mask)) \<and>
           passing_qc (outputs d) + failing_qc (outputs d) = total_units (outputs d)"
  using assms by (simp add: process_folder_def Let_def curation_process_def outputs_of_def)

theorem provenance_counts_witness:
  "load_sorting_analyzer_or_waveforms pipeline_env
     (postprocessed_base_folder pipeline_resolved @ [''postprocessed_rec1'']) = Some example_analyzer \<and>
   pipeline_mode pipeline_resolved \<and>
   (\<exists>mask d.
      results (process_folder pipeline_env pipeline_resolved start_state
                 (''postprocessed_rec1'', Dir [])) =
        [(''qc_rec1.npy'', Npy mask), (''data_process_curation_rec1.json'', DataProcessJson d)] \<and>
      total_units (outputs d) = 2 \<and>
      passing_qc (outputs d) + failing_qc (outputs d) = total_units (outputs d))"
proof -
  have h: "load_sorting_analyzer_or_waveforms pipeline_env
     (postprocessed_base_folder pipeline_resolved @ [fst (''postprocessed_rec1'', Dir [])]) =
     Some example_analyzer"
    by (simp add: load_rec1_example)
  have len: "length (unit_ids example_analyzer) = 2"
    by (simp add: example_defs)
  have "\<exists>mask d.
      results (process_folder pipeline_env pipeline_resolved start_state
                 (''postprocessed_rec1'', Dir [])) =
        [(''qc_rec1.npy'', Npy mask), (''data_process_curation_rec1.json'', DataProcessJson d)] \<and>
      total_units (outputs d) = 2 \<and>
      passing_qc (outputs d) + failing_qc (outputs d) = total_units (outputs d)"
    using provenance_counts [OF h pipeline_flag_example, of start_state]
    by (simp add: len pipeline_flag_example recording_name_rec1 qc_file_def
          process_json_file_def start_state_def) blast
  with load_rec1_example pipeline_flag_example show ?thesis by simp
qed

text \<open>
  C4, as the code has it. The provenance documents that the loop writes are, in order,
  one for each recording whose analyzer loads, whenever the branch taken is not capsule
  (single-asset) mode: the flag \<open>pipeline_mode\<close> stays set in test mode as well as in
  pipeline mode. In capsule mode none is written.
\<close>

theorem provenance_follows_pipeline_flag:
  assumes "resolve_mode data sorted_folders cp = Inr su"
  shows "provenance_files (curate_all env su st ps) =
           provenance_files st @
           (if mode su = CapsuleMode then []
            else map (\<lambda>p. process_json_file (recording_name_of True (fst p)))
                   (filter (\<lambda>p. load_sorting_analyzer_or_waveforms env
                                    (postprocessed_base_folder su @ [fst p]) \<noteq> None) ps))"
  using resolve_mode_flag [OF assms]
  by (simp add: provenance_files_curate_all)

theorem provenance_follows_pipeline_flag_witness:
  "resolve_mode pipeline_data [] example_thresholds = Inr pipeline_resolved \<and>
   provenance_files (curate_all pipeline_env pipeline_resolved start_state
      [(''postprocessed_rec1'', Dir []), (''postprocessed_rec2.zarr'', Dir [])]) =
     [''data_process_curation_rec1.json''] \<and>
   resolve_mode capsule_data
     [(''ecephys_123_sorted'', Dir [(''postprocessed'', Dir [(''rec1.zarr'', Dir [])])])]
     example_thresholds = Inr capsule_resolved \<and>
   load_sorting_analyzer_or_waveforms capsule_env
     (postprocessed_base_folder capsule_resolved @ [''rec1.zarr'']) = Some example_analyzer \<and>
   provenance_files (curate_all capsule_env capsule_resolved start_state
      [(''rec1.zarr'', Dir [])]) = []"
proof -
  have c: "resolve_mode capsule_data
     [(''ecephys_123_sorted'', Dir [(''postprocessed'', Dir [(''rec1.zarr'', Dir [])])])]
     example_thresholds = Inr capsule_resolved"
    by (simp add: resolve_mode_def example_defs full_query_def)
  have l: "load_sorting_analyzer_or_waveforms capsule_env
     (postprocessed_base_folder capsule_resolved @ [''rec1.zarr'']) = Some example_analyzer"
    by (simp add: example_defs)
  have s0: "provenance_files start_state = []"
    by (simp add: provenance_files_def start_state_def)
  have m: "mode capsule_resolved = CapsuleMode" "mode pipeline_resolved = PipelineMode"
    by (simp_all add: example_defs)
  show ?thesis
    using provenance_follows_pipeline_flag [OF resolve_pipeline_example, of pipeline_env start_state
            "[(''postprocessed_rec1'', Dir []), (''postprocessed_rec2.zarr'', Dir [])]"]
          provenance_follows_pipeline_flag [OF c, of capsule_env start_state
            "[(''rec1.zarr'', Dir [])]"]
    by (simp add: resolve_pipeline_example load_rec1_example load_rec2_example c l s0 m
          recording_name_rec1 process_json_file_def)
qed

text \<open>
  C4, as stated, fails in test mode: with the test folder holding one recording whose
  analyzer loads, the run writes a provenance document for it.
\<close>

theorem test_mode_writes_provenance:
  "map_sum id mode
     (resolve_mode test_data
        (ecephys_sorted_folders
           [(''postprocessing_pipeline_output_test'', Dir [(''postprocessed_rec1'', Dir [])])])
        example_thresholds) = Inr TestMode \<and>
   map_sum id (\<lambda>r. provenance_files (fst r)) (main test_env no_arguments) =
     Inr [''data_process_curation_rec1.json'']"
  by (simp add: run_defs parse_defs string_defs example_defs)

section \<open>Attached sorted assets\<close>

text \<open>
  C5. The rule "a subdirectory whose name contains ecephys, or contains both behavior and
  sorted" is not what the source computes: \<open>p.is_dir()\<close> guards only the first
  alternative. With one attached asset folder and a regular file whose name contains
  "behavior" and "sorted", the specification's rule finds one asset, the source finds two
  and the assertion fails.
\<close>

theorem file_named_behavior_sorted_counts_as_asset:
  "ecephys_sorted_folders
     [(''ecephys_123_sorted'', Dir [(''postprocessed'', Dir [])]),
      (''behavior_sorted_notes.txt'', File)] =
     [(''ecephys_123_sorted'', Dir [(''postprocessed'', Dir [])]),
      (''behavior_sorted_notes.txt'', File)] \<and>
   filter spec_sorted_asset
     [(''ecephys_123_sorted'', Dir [(''postprocessed'', Dir [])]),
      (''behavior_sorted_notes.txt'', File)] =
     [(''ecephys_123_sorted'', Dir [(''postprocessed'', Dir [])])] \<and>
   resolve_mode
     (Dir [(''ecephys_123_sorted'', Dir [(''postprocessed'', Dir [])]),
           (''behavior_sorted_notes.txt'', File)])
     (ecephys_sorted_folders
        [(''ecephys_123_sorted'', Dir [(''postprocessed'', Dir [])]),
         (''behavior_sorted_notes.txt'', File)])
     example_thresholds = Inl AssertionError"
  by (simp add: ecephys_sorted_folders_def is_sorted_asset_def spec_sorted_asset_def
        resolve_mode_def example_thresholds_def)

section \<open>Job count\<close>

text \<open>
  C6. With only \<^verbatim>\<open>--n-jobs 4\<close> given and CO_CPUS unset, the job count is -1, not 4:
  the positional's default "-1" is a non-empty string, so
  \<^verbatim>\<open>args.static_n_jobs or args.n_jobs\<close> never reads the named argument.
\<close>

theorem named_n_jobs_is_ignored:
  "and_then
     (parse_args \<lparr>positionals = [], opt_n_jobs = Some ''4'', opt_params_file = None,
                  opt_params_str = None\<rparr>)
     (resolve_N_JOBS None) = Inr (JobsInt (- 1))"
  by (simp add: parse_defs)

text \<open>
  C8, as the code has it. Without the CO_CPUS override, the command-line value is read
  as a fraction (\<^verbatim>\<open>float\<close>) when it begins with "0." and as an integer (\<^verbatim>\<open>int\<close>) otherwise,
  a malformed value being a ValueError. With the override, the command-line value is
  still read first, and when that succeeds the result is the integer that CO_CPUS
  denotes, or a ValueError when CO_CPUS is not an integer literal; in particular a
  CO_CPUS value that begins with "0." is always rejected with a ValueError, never read
  as a fraction.
\<close>

theorem job_count_interpretation:
  "(startswith (str_or (static_n_jobs a) (n_jobs a)) ''0.'' \<longrightarrow>
      resolve_N_JOBS None a =
        (case py_float (str_or (static_n_jobs a) (n_jobs a)) of
           None \<Rightarrow> Inl ValueError | Some f \<Rightarrow> Inr (JobsFloat f))) \<and>
   (\<not> startswith (str_or (static_n_jobs a) (n_jobs a)) ''0.'' \<longrightarrow>
      resolve_N_JOBS None a =
        (case py_int (str_or (static_n_jobs a) (n_jobs a)) of
           None \<Rightarrow> Inl ValueError | Some i \<Rightarrow> Inr (JobsInt i))) \<and>
   resolve_N_JOBS (Some co) a =
     (case resolve_N_JOBS None a of
        Inl e \<Rightarrow> Inl e
      | Inr N_JOBS \<Rightarrow> (case py_int co of None \<Rightarrow> Inl ValueError | Some i \<Rightarrow> Inr (JobsInt i))) \<and>
   (startswith co ''0.'' \<longrightarrow> resolve_N_JOBS (Some co) a = Inl ValueError)"
proof (intro conjI impI)
  assume "startswith (str_or (static_n_jobs a) (n_jobs a)) ''0.''"
  then show "resolve_N_JOBS None a =
        (case py_float (str_or (static_n_jobs a) (n_jobs a)) of
           None \<Rightarrow> Inl ValueError | Some f \<Rightarrow> Inr (JobsFloat f))"
    by (simp add: resolve_N_JOBS_def N_JOBS_of_args_def Let_def split: option.splits)
next
  assume "\<not> startswith (str_or (static_n_jobs a) (n_jobs a)) ''0.''"
  then show "resolve_N_JOBS None a =
        (case py_int (str_or (static_n_jobs a) (n_jobs a)) of
           None \<Rightarrow> Inl ValueError | Some i \<Rightarrow> Inr (JobsInt i))"
    by (simp add: resolve_N_JOBS_def N_JOBS_of_args_def Let_def split: option.splits)
next
  show "resolve_N_JOBS (Some co) a =
     (case resolve_N_JOBS None a of
        Inl e \<Rightarrow> Inl e
      | Inr N_JOBS \<Rightarrow> (case py_int co of None \<Rightarrow> Inl ValueError | Some i \<Rightarrow> Inr (JobsInt i)))"
    by (simp add: resolve_N_JOBS_def split: sum.splits)
next
  assume "startswith co ''0.''"
  then have "py_int co = None" by (rule py_int_zero_dot)
  then show "resolve_N_JOBS (Some co) a = Inl ValueError"
    by (auto simp: resolve_N_JOBS_def split: sum.splits dest: N_JOBS_of_args_error)
qed

theorem job_count_interpretation_witness:
  "startswith (str_or ''0.5'' ''-1'') ''0.'' \<and>
   resolve_N_JOBS None
     \<lparr>static_n_jobs = ''0.5'', n_jobs = ''-1'', static_params_file = None, params_file = None,
      params_str = None\<rparr> = Inr (JobsFloat ''0.5'') \<and>
   \<not> startswith (str_or ''8'' ''-1'') ''0.'' \<and>
   resolve_N_JOBS None
     \<lparr>static_n_jobs = ''8'', n_jobs = ''-1'', static_params_file = None, params_file = None,
      params_str = None\<rparr> = Inr (JobsInt 8) \<and>
   resolve_N_JOBS (Some ''16'')
     \<lparr>static_n_jobs = ''0.5'', n_jobs = ''-1'', static_params_file = None, params_file = None,
      params_str = None\<rparr> = Inr (JobsInt 16) \<and>
   startswith ''0.5'' ''0.'' \<and>
   resolve_N_JOBS (Some ''0.5'')
     \<lparr>static_n_jobs = ''8'', n_jobs = ''-1'', static_params_file = None, params_file = None,
      params_str = None\<rparr> = Inl ValueError"
proof -
  let ?a1 = "\<lparr>static_n_jobs = ''0.5'', n_jobs = ''-1'', static_params_file = None,
              params_file = None, params_str = None\<rparr>"
  let ?a2 = "\<lparr>static_n_jobs = ''8'', n_jobs = ''-1'', static_params_file = None,
              params_file = None, params_str = None\<rparr>"
  have f: "py_float ''0.5'' = Some ''0.5''" by (simp add: parse_defs)
  have i8: "py_int ''8'' = Some 8" by (simp add: parse_defs)
  have i16: "py_int ''16'' = Some 16" by (simp add: parse_defs)
  have s1: "startswith (str_or ''0.5'' ''-1'') ''0.''"
    by (simp add: str_or_def startswith_def)
  have s2: "\<not> startswith (str_or ''8'' ''-1'') ''0.''"
    by (simp add: str_or_def startswith_def)
  have s3: "startswith ''0.5'' ''0.''"
    by (simp add: startswith_def)
  note t1 = job_count_interpretation [of ?a1 "''16''"]
  note t2 = job_count_interpretation [of ?a2 "''0.5''"]
  from t1 s1 have r1: "resolve_N_JOBS None ?a1 = Inr (JobsFloat ''0.5'')"
    by (simp add: str_or_def f)
  from t2 s2 have r2: "resolve_N_JOBS None ?a2 = Inr (JobsInt 8)"
    by (simp add: str_or_def i8)
  from t1 have "resolve_N_JOBS (Some ''16'') ?a1 =
     (case resolve_N_JOBS None ?a1 of
        Inl e \<Rightarrow> Inl e
      | Inr N_JOBS \<Rightarrow> (case py_int ''16'' of None \<Rightarrow> Inl ValueError | Some i \<Rightarrow> Inr (JobsInt i)))"
    by blast
  then have r3: "resolve_N_JOBS (Some ''16'') ?a1 = Inr (JobsInt 16)"
    by (simp add: r1 i16)
  from t2 s3 have r4: "resolve_N_JOBS (Some ''0.5'') ?a2 = Inl ValueError"
    by blast
  from s1 r1 s2 r2 r3 s3 r4 show ?thesis by blast
qed

text \<open>
  C8, as stated, fails for the environment override: CO_CPUS = "0.5" is not read as a
  fraction, the run ends with a ValueError.
\<close>

theorem override_fraction_is_rejected:
  "and_then (parse_args no_arguments) (resolve_N_JOBS (Some ''0.5'')) = Inl ValueError"
  by (simp add: parse_defs no_arguments_def)

section \<open>Parameters source\<close>

text \<open>
  C9, as the code has it. On every command line that the parser accepts, the parameters
  document comes from the explicit file path if given, else from the positional file path
  if given and not empty, else from the inline string if given, else from "params.json";
  and at most one of the three sources is given, since the parser rejects any two.
\<close>

theorem params_source_precedence:
  assumes "parse_args c = Inr a"
  shows "params_source_of a =
           (case opt_params_file c of
              Some f \<Rightarrow> FromFile f
            | None \<Rightarrow>
                (case opt_or (positional_params_file c) None of
                   Some f \<Rightarrow> FromFile f
                 | None \<Rightarrow>
                     (case opt_params_str c of
                        Some s \<Rightarrow> FromString s
                      | None \<Rightarrow> FromFile ''params.json''))) \<and>
         length (filter id [positional_params_file c \<noteq> None, opt_params_file c \<noteq> None,
                            opt_params_str c \<noteq> None]) \<le> 1"
  using assms
  by (auto simp: parse_args_def params_source_of_def positional_params_file_def opt_or_def Let_def
           split: if_splits option.splits list.splits)

theorem params_source_precedence_witness:
  "parse_args \<lparr>positionals = [''-1'', ''custom.json''], opt_n_jobs = None, opt_params_file = None,
               opt_params_str = None\<rparr> =
     Inr \<lparr>static_n_jobs = ''-1'', n_jobs = ''-1'', static_params_file = Some ''custom.json'',
          params_file = None, params_str = None\<rparr> \<and>
   params_source_of
     \<lparr>static_n_jobs = ''-1'', n_jobs = ''-1'', static_params_file = Some ''custom.json'',
      params_file = None, params_str = None\<rparr> = FromFile ''custom.json''"
proof -
  have h: "parse_args \<lparr>positionals = [''-1'', ''custom.json''], opt_n_jobs = None,
               opt_params_file = None, opt_params_str = None\<rparr> =
     Inr \<lparr>static_n_jobs = ''-1'', n_jobs = ''-1'', static_params_file = Some ''custom.json'',
          params_file = None, params_str = None\<rparr>"
    by (simp add: parse_args_def)
  show ?thesis
    using params_source_precedence [OF h]
    by (simp add: h positional_params_file_def opt_or_def)
qed

text \<open>
  C9, as stated, fails for an empty positional path: it is given, yet the default file
  is read.
\<close>

theorem empty_positional_params_file_is_ignored:
  "map_sum id params_source_of
     (parse_args \<lparr>positionals = [''-1'', ''''], opt_n_jobs = None, opt_params_file = None,
                  opt_params_str = None\<rparr>) = Inr (FromFile ''params.json'')"
  by (simp add: parse_defs)

section \<open>Recording names\<close>

text \<open>
  C7. A name that ends with ".zarr" is cut at the first occurrence of ".zarr", not at
  the trailing one: the folder "postprocessed_a.zarr_b.zarr" gives the recording name
  "a", where stripping the trailing suffix gives "a.zarr_b".
\<close>

theorem zarr_cut_at_first_occurrence:
  "recording_name_of True ''postprocessed_a.zarr_b.zarr'' = ''a''"
  by (simp add: string_defs)

end
